theory Spec2Isabelle
  imports Main
begin

section \<open>Therapy bot backend: crisis detection and the chat endpoint\<close>

text \<open>
  A shallow embedding of \<^verbatim>\<open>backend/app.py\<close>: the keyword classifier
  \<^verbatim>\<open>is_crisis_message\<close>, the response generator \<^verbatim>\<open>generate_response\<close> and the
  Flask handler \<^verbatim>\<open>chat\<close>.

  A message is a \<^typ>\<open>string\<close>, a list of characters with code points below 256. On these
  Python's \<^verbatim>\<open>str.lower\<close> and \<^verbatim>\<open>str.strip\<close> act character by character, by the
  tables written out below.
\<close>

subsection \<open>The string operations the program uses\<close>

text \<open>\<^verbatim>\<open>str.lower\<close>: A-Z and the capital letters U+00C0..U+00DE (U+00D7, the
  multiplication sign, apart) move up by 32; every other character stays.\<close>

definition lower_char :: "char \<Rightarrow> char" where
  "lower_char c =
     (let n = (of_char c :: nat) in
      if (65 \<le> n \<and> n \<le> 90) \<or> (192 \<le> n \<and> n \<le> 222 \<and> n \<noteq> 215)
      then char_of (n + 32) else c)"

definition lower :: "string \<Rightarrow> string" where
  "lower s = map lower_char s"

text \<open>\<^verbatim>\<open>str.isspace\<close> of one character: tab, line feed, vertical tab, form feed,
  carriage return, the separators U+001C..U+001F, space, U+0085 and U+00A0.\<close>

definition isspace :: "char \<Rightarrow> bool" where
  "isspace c = ((of_char c :: nat) \<in> {9, 10, 11, 12, 13, 28, 29, 30, 31, 32, 133, 160})"

text \<open>\<^verbatim>\<open>str.strip()\<close> drops the white space at both ends.\<close>

definition strip :: "string \<Rightarrow> string" where
  "strip s = rev (dropWhile isspace (rev (dropWhile isspace s)))"

text \<open>\<^verbatim>\<open>text.startswith(x)\<close> and the substring test \<^verbatim>\<open>x in text\<close>, which tries
  every position of \<^verbatim>\<open>text\<close> from the left.\<close>

fun startswith :: "string \<Rightarrow> string \<Rightarrow> bool" where
  "startswith text [] = True"
| "startswith [] (x # xs) = False"
| "startswith (c # cs) (x # xs) = (c = x \<and> startswith cs xs)"

fun str_in :: "string \<Rightarrow> string \<Rightarrow> bool" where
  "str_in x [] = (x = [])"
| "str_in x (c # cs) = (startswith (c # cs) x \<or> str_in x cs)"

text \<open>\<^verbatim>\<open>re.sub(r'\*+', '', text)\<close> deletes every run of asterisks, that is every
  asterisk.\<close>

definition re_sub_asterisks :: "string \<Rightarrow> string" where
  "re_sub_asterisks text = filter (\<lambda>c. c \<noteq> CHR ''*'') text"

subsection \<open>Values, exceptions and the trace of effects\<close>

text \<open>The Python value that \<^verbatim>\<open>request.get_json()\<close> returns, and that
  \<^verbatim>\<open>jsonify\<close> takes. A dictionary is an association list with distinct keys; a
  number that is not an integer keeps its literal.\<close>

datatype pyval =
    PNone
  | PBool bool
  | PInt int
  | PFloat string
  | PStr string
  | PList "pyval list"
  | PDict "(string \<times> pyval) list"

fun type_name :: "pyval \<Rightarrow> string" where
  "type_name PNone = ''NoneType''"
| "type_name (PBool b) = ''bool''"
| "type_name (PInt i) = ''int''"
| "type_name (PFloat f) = ''float''"
| "type_name (PStr s) = ''str''"
| "type_name (PList xs) = ''list''"
| "type_name (PDict d) = ''dict''"

text \<open>The exceptions the program can meet: an attribute missing on a value, the
  \<^verbatim>\<open>BadRequest\<close> that \<^verbatim>\<open>get_json\<close> raises on a body that does not parse, a missing
  dictionary key, the \<^verbatim>\<open>ValueError\<close> the program raises itself, and whatever the
  model client raises (with its message).\<close>

datatype exn =
    AttributeError string string
  | BadRequest string
  | KeyError string
  | ValueError string
  | ModelError string

fun str_exn :: "exn \<Rightarrow> string" where
  "str_exn (AttributeError ty attr) =
     [CHR 0x27] @ ty @ [CHR 0x27] @ '' object has no attribute '' @ [CHR 0x27] @ attr @ [CHR 0x27]"
| "str_exn (BadRequest msg) = msg"
| "str_exn (KeyError k) = [CHR 0x27] @ k @ [CHR 0x27]"
| "str_exn (ValueError msg) = msg"
| "str_exn (ModelError msg) = msg"

text \<open>What one call of \<^verbatim>\<open>model.generate_content(...)\<close> followed by reading
  \<^verbatim>\<open>response.text\<close> gives: an exception, or the text. The model client is a parameter
  of the functions below, from the prompt to this outcome.\<close>

datatype gen_result = Raises string | Text string

text \<open>The effects of a request, in the order they happen: each call of the classifier
  (with its argument), each call of the model (with the prompt), each record written
  through the logger.\<close>

datatype event =
    Classifier_call string
  | Model_call string
  | Log_info string
  | Log_error string

type_synonym trace = "event list"

text \<open>An HTTP reply: the fields of the JSON body in the order the program writes
  them, and the status code.\<close>

type_synonym http_reply = "(string \<times> pyval) list \<times> nat"

subsection \<open>Constants of the module\<close>

definition THERAPY_CONTEXT :: string where
  \<open>THERAPY_CONTEXT =
    ''\<newline>'' @
    ''    You are Serenity AI, a compassionate mental health assistant. Provide brief, supportive responses that:\<newline>'' @
    ''    1. Validate feelings ("I hear you're feeling...")\<newline>'' @
    ''    2. Ask one open-ended question\<newline>'' @
    ''    3. Offer one simple coping strategy\<newline>'' @
    ''    4. Keep responses under 3 sentences\<newline>'' @
    ''    \<newline>'' @
    ''    For crisis situations:\<newline>'' @
    ''    1. Acknowledge the pain ("This sounds really difficult")\<newline>'' @
    ''    2. Provide emergency resources\<newline>'' @
    ''    3. Encourage immediate action\<newline>'' @
    ''    4. Keep response under 4 sentences\<newline>'' @
    ''    ''\<close>

record crisis_entry =
  response :: string
  resources :: "string list"

definition CRISIS_RESOURCES :: "(string \<times> crisis_entry) list" where
  \<open>CRISIS_RESOURCES =
    [(''suicide'',
      \<lparr>response = ''I'm deeply concerned about you. Please call the 988 Suicide & Crisis Lifeline now at 988 (US) or your local emergency number.'',
       resources = [''988 Suicide & Crisis Lifeline'', ''Crisis Text Line: Text HOME to 741741'']\<rparr>),
     (''self-harm'',
      \<lparr>response = ''Your safety matters. Please reach out to someone you trust or text HOME to 741741 to connect with a crisis counselor.'',
       resources = [''Crisis Text Line: Text HOME to 741741'']\<rparr>)]\<close>

definition crisis_indicators :: "string list" where
  "crisis_indicators =
    [''kill myself'', ''end it all'', ''want to die'',
     ''cut myself'', ''self harm'', ''hurt myself'',
     ''suicide'', ''ending my life'']"

subsection \<open>The classifier\<close>

text \<open>\<^verbatim>\<open>is_crisis_message(text)\<close>: lowercases the text and asks whether any indicator
  occurs in it. The function touches nothing else; its call is the only event.\<close>

definition is_crisis_message :: "string \<Rightarrow> trace \<Rightarrow> bool \<times> trace" where
  "is_crisis_message text tr =
     (let text' = lower text in
      (list_ex (\<lambda>indicator. str_in indicator text') crisis_indicators,
       tr @ [Classifier_call text]))"

text \<open>The category expression that \<^verbatim>\<open>chat\<close> (line 133) and
  \<^verbatim>\<open>generate_response\<close> (line 83) both evaluate on a flagged message.\<close>

definition crisis_type :: "string \<Rightarrow> string" where
  "crisis_type user_input =
     (if list_ex (\<lambda>word. str_in word (lower user_input)) [''suicide'', ''die'', ''end it'']
      then ''suicide'' else ''self-harm'')"

subsection \<open>The response generator\<close>

definition fallback_text :: string where
  \<open>fallback_text = ''I'm having trouble responding. Could you rephrase that or try again later?''\<close>

definition prompt_of :: "string \<Rightarrow> string" where
  "prompt_of user_input =
    ''\<newline>'' @
    ''        User message: '' @ user_input @ ''\<newline>'' @
    ''        \<newline>'' @
    ''        Please respond with:\<newline>'' @
    ''        1. Brief emotional validation\<newline>'' @
    ''        2. One open-ended question\<newline>'' @
    ''        3. One simple coping suggestion\<newline>'' @
    ''        ''"

text \<open>The body of the \<^verbatim>\<open>try\<close> block of \<^verbatim>\<open>generate_response\<close>: \<open>Inl\<close> is an
  exception raised inside it.\<close>

definition generate_response_try ::
  "(string \<Rightarrow> gen_result) \<Rightarrow> string \<Rightarrow> trace \<Rightarrow> (exn + string) \<times> trace" where
  "generate_response_try generate_content user_input tr =
     (case is_crisis_message user_input tr of
        (True, tr1) \<Rightarrow>
          (case map_of CRISIS_RESOURCES (crisis_type user_input) of
             None \<Rightarrow> (Inl (KeyError (crisis_type user_input)), tr1)
           | Some entry \<Rightarrow> (Inr (response entry), tr1))
      | (False, tr1) \<Rightarrow>
          (let prompt = prompt_of user_input;
               tr2 = tr1 @ [Model_call (THERAPY_CONTEXT @ prompt)]
           in case generate_content (THERAPY_CONTEXT @ prompt) of
                Raises msg \<Rightarrow> (Inl (ModelError msg), tr2)
              | Text text \<Rightarrow>
                  if text = [] then (Inl (ValueError ''Empty response from model''), tr2)
                  else (Inr (strip (re_sub_asterisks text)), tr2)))"

text \<open>\<^verbatim>\<open>generate_response\<close>: the \<^verbatim>\<open>except Exception\<close> clause logs the error and
  returns the fixed text.\<close>

definition generate_response ::
  "(string \<Rightarrow> gen_result) \<Rightarrow> string \<Rightarrow> trace \<Rightarrow> string \<times> trace" where
  "generate_response generate_content user_input tr =
     (case generate_response_try generate_content user_input tr of
        (Inl e, tr') \<Rightarrow>
          (fallback_text, tr' @ [Log_error (''Response generation failed: '' @ str_exn e)])
      | (Inr r, tr') \<Rightarrow> (r, tr'))"

subsection \<open>The chat endpoint\<close>

text \<open>A POST to \<^verbatim>\<open>/chat\<close>: a body that is not announced as JSON
  (\<^verbatim>\<open>request.is_json\<close> is false), a body announced as JSON that does not parse
  (\<^verbatim>\<open>get_json\<close> raises, with this message), or the parsed value.\<close>

datatype request = NonJson | BadJson string | Json pyval

definition empty_reply_text :: string where
  \<open>empty_reply_text = ''I'm here when you're ready to talk''\<close>

definition error_reply_text :: string where
  \<open>error_reply_text = ''I'm unable to respond properly right now. Please try again later.''\<close>

text \<open>\<^verbatim>\<open>data.get('message', '')\<close>: an attribute error on a value that is no
  dictionary.\<close>

fun get_message :: "pyval \<Rightarrow> exn + pyval" where
  "get_message (PDict d) =
     (case map_of d ''message'' of None \<Rightarrow> Inr (PStr []) | Some v \<Rightarrow> Inr v)"
| "get_message v = Inl (AttributeError (type_name v) ''get'')"

text \<open>\<^verbatim>\<open>.strip()\<close> on that value: an attribute error on anything but a string.\<close>

fun strip_value :: "pyval \<Rightarrow> exn + string" where
  "strip_value (PStr s) = Inr (strip s)"
| "strip_value v = Inl (AttributeError (type_name v) ''strip'')"

text \<open>The part of \<^verbatim>\<open>chat\<close> from the classification on (lines 128 to 152), for a
  message that is not empty.\<close>

definition chat_dispatch ::
  "(string \<Rightarrow> gen_result) \<Rightarrow> string \<Rightarrow> trace \<Rightarrow> (exn + http_reply) \<times> trace" where
  "chat_dispatch generate_content user_input tr =
     (case is_crisis_message user_input tr of (is_crisis, tr1) \<Rightarrow>
        (case (if is_crisis
               then (case map_of CRISIS_RESOURCES (crisis_type user_input) of
                       None \<Rightarrow> (Inl (KeyError (crisis_type user_input)), tr1)
                     | Some entry \<Rightarrow> (Inr (response entry, resources entry), tr1))
               else (case generate_response generate_content user_input tr1 of
                       (r, tr2) \<Rightarrow> (Inr (r, []), tr2)))
         of (Inl e, tr3) \<Rightarrow> (Inl e, tr3)
          | (Inr (response', resources'), tr3) \<Rightarrow>
              (Inr ([(''response'', PStr response'),
                     (''is_crisis'', PBool is_crisis),
                     (''resources'', PList (map PStr resources')),
                     (''success'', PBool True)], 200),
               tr3 @ [Log_info (''User: '' @ user_input), Log_info (''AI: '' @ response')])))"

text \<open>The body of the \<^verbatim>\<open>try\<close> block of \<^verbatim>\<open>chat\<close>.\<close>

definition chat_try ::
  "(string \<Rightarrow> gen_result) \<Rightarrow> request \<Rightarrow> trace \<Rightarrow> (exn + http_reply) \<times> trace" where
  "chat_try generate_content req tr =
     (case req of
        NonJson \<Rightarrow> (Inr ([(''error'', PStr ''JSON input required'')], 400), tr)
      | BadJson msg \<Rightarrow> (Inl (BadRequest msg), tr)
      | Json data \<Rightarrow>
          (case get_message data of
             Inl e \<Rightarrow> (Inl e, tr)
           | Inr v \<Rightarrow>
               (case strip_value v of
                  Inl e \<Rightarrow> (Inl e, tr)
                | Inr user_input \<Rightarrow>
                    if user_input = []
                    then (Inr ([(''response'', PStr empty_reply_text)], 200), tr)
                    else chat_dispatch generate_content user_input tr)))"

text \<open>\<^verbatim>\<open>chat\<close>: the \<^verbatim>\<open>except Exception\<close> clause logs the error and answers 500.\<close>

definition chat :: "(string \<Rightarrow> gen_result) \<Rightarrow> request \<Rightarrow> trace \<Rightarrow> http_reply \<times> trace" where
  "chat generate_content req tr =
     (case chat_try generate_content req tr of
        (Inl e, tr') \<Rightarrow>
          (([(''response'', PStr error_reply_text), (''success'', PBool False)], 500),
           tr' @ [Log_error (''Endpoint error: '' @ str_exn e)])
      | (Inr reply, tr') \<Rightarrow> (reply, tr'))"

subsection \<open>Model clients used in the examples\<close>

text \<open>Three clients to run the handler on: one whose call raises, one that answers a
  single space, one that answers a sentence with markdown emphasis.\<close>

definition model_down :: "string \<Rightarrow> gen_result" where
  "model_down prompt = Raises ''503 Service Unavailable''"

definition model_blank :: "string \<Rightarrow> gen_result" where
  "model_blank prompt = Text '' ''"

definition model_reply :: "string \<Rightarrow> gen_result" where
  "model_reply prompt = Text ''**I hear you.** What would help right now? ''"

section \<open>Properties\<close>

subsection \<open>Substrings, lowercase and trimming\<close>

lemma startswith_iff: "startswith t x \<longleftrightarrow> (\<exists>s. t = x @ s)"
  by (induction t x rule: startswith.induct) auto

lemma str_in_iff: "str_in x t \<longleftrightarrow> (\<exists>p s. t = p @ x @ s)"
proof (induction t)
  case Nil
  then show ?case by auto
next
  case (Cons c cs)
  show ?case
  proof
    assume "str_in x (c # cs)"
    then consider "startswith (c # cs) x" | "str_in x cs" by auto
    then show "\<exists>p s. c # cs = p @ x @ s"
    proof cases
      case 1
      then obtain s where "c # cs = x @ s" by (auto simp: startswith_iff)
      then have "c # cs = [] @ x @ s" by simp
      then show ?thesis by blast
    next
      case 2
      then obtain p s where "cs = p @ x @ s" using Cons.IH by auto
      then have "c # cs = (c # p) @ x @ s" by simp
      then show ?thesis by blast
    qed
  next
    assume "\<exists>p s. c # cs = p @ x @ s"
    then obtain p s where ps: "c # cs = p @ x @ s" by auto
    show "str_in x (c # cs)"
    proof (cases p)
      case Nil
      then have "startswith (c # cs) x" using ps by (auto simp: startswith_iff)
      then show ?thesis by simp
    next
      case (Cons a p')
      then have "cs = p' @ x @ s" using ps by simp
      then have "str_in x cs" using Cons.IH by blast
      then show ?thesis by simp
    qed
  qed
qed

lemma lower_append: "lower (a @ b) = lower a @ lower b"
  by (simp add: lower_def)

lemma lower_contains_iff:
  "(\<exists>p s. lower m = p @ i @ s) \<longleftrightarrow> (\<exists>p x s. m = p @ x @ s \<and> lower x = i)"
proof
  assume "\<exists>p s. lower m = p @ i @ s"
  then obtain p s where "map lower_char m = p @ (i @ s)" by (auto simp: lower_def)
  then have "\<exists>us vs. m = us @ vs \<and> p = map lower_char us \<and> i @ s = map lower_char vs"
    by (simp only: map_eq_append_conv)
  then obtain us vs where m: "m = us @ vs" and vs: "i @ s = map lower_char vs" by blast
  from vs have "\<exists>a b. vs = a @ b \<and> i = map lower_char a \<and> s = map lower_char b"
    by (simp only: append_eq_map_conv)
  then obtain a b where "vs = a @ b" and "i = map lower_char a" by blast
  with m have "m = us @ a @ b \<and> lower a = i" by (simp add: lower_def)
  then show "\<exists>p x s. m = p @ x @ s \<and> lower x = i" by blast
next
  assume "\<exists>p x s. m = p @ x @ s \<and> lower x = i"
  then obtain p x s where "m = p @ x @ s" and "lower x = i" by blast
  then have "lower m = lower p @ i @ lower s" by (simp add: lower_append)
  then show "\<exists>p s. lower m = p @ i @ s" by blast
qed

lemma dropWhile_all_iff: "(\<forall>x \<in> set (dropWhile P xs). P x) \<longleftrightarrow> (\<forall>x \<in> set xs. P x)"
proof
  assume a: "\<forall>x \<in> set (dropWhile P xs). P x"
  have "dropWhile P xs = []"
  proof (rule ccontr)
    assume n: "dropWhile P xs \<noteq> []"
    then have "\<not> P (hd (dropWhile P xs))" by (rule hd_dropWhile)
    moreover have "hd (dropWhile P xs) \<in> set (dropWhile P xs)" using n by simp
    ultimately show False using a by blast
  qed
  then show "\<forall>x \<in> set xs. P x" by (simp add: dropWhile_eq_Nil_conv)
next
  assume "\<forall>x \<in> set xs. P x"
  then show "\<forall>x \<in> set (dropWhile P xs). P x" by (auto dest: set_dropWhileD)
qed

lemma strip_empty_iff: "strip s = [] \<longleftrightarrow> (\<forall>c \<in> set s. isspace c)"
  by (simp add: strip_def dropWhile_eq_Nil_conv dropWhile_all_iff)

subsection \<open>The classifier and the category\<close>

lemma fst_is_crisis_message:
  "fst (is_crisis_message m tr) = list_ex (\<lambda>indicator. str_in indicator (lower m)) crisis_indicators"
  by (simp add: is_crisis_message_def Let_def)

lemma is_crisis_message_iff:
  "fst (is_crisis_message m tr) \<longleftrightarrow>
     (\<exists>i \<in> set [''kill myself'', ''end it all'', ''want to die'', ''cut myself'',
                 ''self harm'', ''hurt myself'', ''suicide'', ''ending my life''].
        \<exists>p s. lower m = p @ i @ s)"
  unfolding fst_is_crisis_message crisis_indicators_def list_ex_iff str_in_iff ..

lemma crisis_type_iff:
  "crisis_type m = ''suicide'' \<longleftrightarrow>
     (\<exists>w \<in> set [''suicide'', ''die'', ''end it'']. \<exists>p s. lower m = p @ w @ s)"
  unfolding crisis_type_def list_ex_iff str_in_iff by simp

lemma crisis_type_cases: "crisis_type m \<noteq> ''suicide'' \<Longrightarrow> crisis_type m = ''self-harm''"
  unfolding crisis_type_def by (simp split: if_splits)

lemma lookup_crisis:
  "map_of CRISIS_RESOURCES (crisis_type u) \<noteq> None"
  unfolding crisis_type_def CRISIS_RESOURCES_def by simp

lemma not_crisis_empty: "\<not> fst (is_crisis_message [] tr)"
  by (simp add: fst_is_crisis_message crisis_indicators_def lower_def)

subsection \<open>The two branches of the handler\<close>

lemma chat_dispatch_crisis:
  assumes "fst (is_crisis_message u tr)"
      and "map_of CRISIS_RESOURCES (crisis_type u) = Some entry"
  shows "chat_dispatch gen u tr =
     (Inr ([(''response'', PStr (response entry)),
            (''is_crisis'', PBool True),
            (''resources'', PList (map PStr (resources entry))),
            (''success'', PBool True)], 200),
      tr @ [Classifier_call u, Log_info (''User: '' @ u), Log_info (''AI: '' @ response entry)])"
  using assms by (simp add: chat_dispatch_def is_crisis_message_def Let_def)

lemma generate_response_not_crisis:
  assumes "\<not> fst (is_crisis_message u tr)"
  shows "generate_response gen u tr =
     (case gen (THERAPY_CONTEXT @ prompt_of u) of
        Raises msg \<Rightarrow> (fallback_text,
           tr @ [Classifier_call u, Model_call (THERAPY_CONTEXT @ prompt_of u),
                 Log_error (''Response generation failed: '' @ msg)])
      | Text t \<Rightarrow> if t = [] then (fallback_text,
           tr @ [Classifier_call u, Model_call (THERAPY_CONTEXT @ prompt_of u),
                 Log_error ''Response generation failed: Empty response from model''])
          else (strip (re_sub_asterisks t), tr @ [Classifier_call u, Model_call (THERAPY_CONTEXT @ prompt_of u)]))"
  using assms
  by (simp add: generate_response_def generate_response_try_def is_crisis_message_def Let_def
           split: gen_result.splits)

lemma chat_dispatch_not_crisis:
  assumes "\<not> fst (is_crisis_message u tr)"
  shows "fst (chat_dispatch gen u tr) =
     Inr ([(''response'', PStr (fst (generate_response gen u (tr @ [Classifier_call u])))),
            (''is_crisis'', PBool False),
            (''resources'', PList []),
            (''success'', PBool True)], 200)"
  using assms by (simp add: chat_dispatch_def is_crisis_message_def Let_def split: prod.splits)

lemma chat_dispatch_status: "fst (chat_dispatch gen u tr) = Inr r \<Longrightarrow> snd r = 200"
  by (auto simp: chat_dispatch_def split: prod.splits sum.splits if_splits option.splits)

lemma chat_try_status: "fst (chat_try gen req tr) = Inr r \<Longrightarrow> snd r = 200 \<or> snd r = 400"
  by (auto simp: chat_try_def dest: chat_dispatch_status split: request.splits sum.splits if_splits)

lemma chat_cases:
  "fst (chat gen req tr) =
     (case fst (chat_try gen req tr) of
        Inl e \<Rightarrow> ([(''response'', PStr error_reply_text), (''success'', PBool False)], 500)
      | Inr r \<Rightarrow> r)"
  by (simp add: chat_def split: prod.splits sum.splits)

text \<open>The two outcomes of the model client that reach the \<^verbatim>\<open>except\<close> clause of
  \<^verbatim>\<open>generate_response\<close>: the call raises, or the answer is the empty string (the
  program raises \<^verbatim>\<open>ValueError("Empty response from model")\<close> itself). The handler
  then answers with the fallback text.\<close>

lemma generation_failure_fallback:
  assumes "map_of d ''message'' = Some (PStr s)" and "strip s \<noteq> []"
      and "\<not> fst (is_crisis_message (strip s) tr)"
      and "gen (THERAPY_CONTEXT @ prompt_of (strip s)) = Raises msg
           \<or> gen (THERAPY_CONTEXT @ prompt_of (strip s)) = Text []"
  shows \<open>fst (chat gen (Json (PDict d)) tr) =
     ([(''response'', PStr ''I'm having trouble responding. Could you rephrase that or try again later?''),
       (''is_crisis'', PBool False), (''resources'', PList []), (''success'', PBool True)], 200)\<close>
proof -
  have nc: "\<not> fst (is_crisis_message (strip s) (tr @ [Classifier_call (strip s)]))"
    using assms(3) by (simp add: fst_is_crisis_message)
  have "fst (generate_response gen (strip s) (tr @ [Classifier_call (strip s)])) = fallback_text"
    using assms(4) by (auto simp: generate_response_not_crisis[OF nc])
  then have "fst (chat_dispatch gen (strip s) tr) =
     Inr ([(''response'', PStr fallback_text), (''is_crisis'', PBool False),
           (''resources'', PList []), (''success'', PBool True)], 200)"
    by (simp add: chat_dispatch_not_crisis[OF assms(3)])
  moreover have "chat_try gen (Json (PDict d)) tr = chat_dispatch gen (strip s) tr"
    using assms(1,2) by (simp add: chat_try_def)
  ultimately show ?thesis
    by (simp add: chat_cases fallback_text_def)
qed

section \<open>The claims\<close>

subsection \<open>C1: the message "I want to kill myself"\<close>

text \<open>
  C1 expects the suicide entry of the table for the message \<^verbatim>\<open>I want to kill myself\<close>.
  The handler flags the message (it contains \<^verbatim>\<open>kill myself\<close>), but the category
  keywords \<^verbatim>\<open>suicide\<close>, \<^verbatim>\<open>die\<close>, \<^verbatim>\<open>end it\<close> do not occur in it, so the category
  is \<^verbatim>\<open>self-harm\<close>: the reply carries the self-harm text and the single resource
  \<^verbatim>\<open>Crisis Text Line: Text HOME to 741741\<close>, and the 988 lifeline is not in it. The
  model client is never called.
\<close>

theorem chat_kill_myself_reply:
  \<open>chat generate_content (Json (PDict [(''message'', PStr ''I want to kill myself'')])) [] =
    (([(''response'', PStr ''Your safety matters. Please reach out to someone you trust or text HOME to 741741 to connect with a crisis counselor.''),
       (''is_crisis'', PBool True),
       (''resources'', PList [PStr ''Crisis Text Line: Text HOME to 741741'']),
       (''success'', PBool True)], 200),
     [Classifier_call ''I want to kill myself'',
      Log_info ''User: I want to kill myself'',
      Log_info ''AI: Your safety matters. Please reach out to someone you trust or text HOME to 741741 to connect with a crisis counselor.''])\<close>
  by code_simp

subsection \<open>C2: what the classifier flags\<close>

text \<open>
  C2: a message is flagged exactly when its lowercased form contains one of the eight
  indicators. In particular a message none of whose substrings lowercases to an indicator
  (no indicator occurs in it, whatever the case of the letters) is not flagged.
\<close>

theorem is_crisis_message_spec:
  "(fst (is_crisis_message m tr) \<longleftrightarrow>
      (\<exists>i \<in> set [''kill myself'', ''end it all'', ''want to die'', ''cut myself'',
                  ''self harm'', ''hurt myself'', ''suicide'', ''ending my life''].
         \<exists>p s. lower m = p @ i @ s))
   \<and> ((\<forall>i \<in> set [''kill myself'', ''end it all'', ''want to die'', ''cut myself'',
                   ''self harm'', ''hurt myself'', ''suicide'', ''ending my life''].
          \<not> (\<exists>p x s. m = p @ x @ s \<and> lower x = i))
        \<longrightarrow> \<not> fst (is_crisis_message m tr))"
proof -
  have a: "fst (is_crisis_message m tr) \<longleftrightarrow>
      (\<exists>i \<in> set [''kill myself'', ''end it all'', ''want to die'', ''cut myself'',
                  ''self harm'', ''hurt myself'', ''suicide'', ''ending my life''].
         \<exists>p s. lower m = p @ i @ s)"
    by (rule is_crisis_message_iff)
  show ?thesis
    unfolding a lower_contains_iff by blast
qed

theorem is_crisis_message_spec_witness:
  "fst (is_crisis_message ''I Want To DIE'' []) \<and> \<not> fst (is_crisis_message ''I feel sad today'' [])"
proof -
  have "lower ''I Want To DIE'' = ''i '' @ ''want to die'' @ ''''" by code_simp
  then have "\<exists>p s. lower ''I Want To DIE'' = p @ ''want to die'' @ s" by blast
  then have 1: "fst (is_crisis_message ''I Want To DIE'' [])"
    using is_crisis_message_spec[of "''I Want To DIE''" "[]"] by simp
  have "\<not> list_ex (\<lambda>i. str_in i (lower ''I feel sad today''))
          [''kill myself'', ''end it all'', ''want to die'', ''cut myself'',
           ''self harm'', ''hurt myself'', ''suicide'', ''ending my life'']" by code_simp
  then have "\<forall>i \<in> set [''kill myself'', ''end it all'', ''want to die'', ''cut myself'',
                   ''self harm'', ''hurt myself'', ''suicide'', ''ending my life''].
          \<not> (\<exists>p x s. ''I feel sad today'' = p @ x @ s \<and> lower x = i)"
    unfolding list_ex_iff str_in_iff lower_contains_iff by blast
  then have 2: "\<not> fst (is_crisis_message ''I feel sad today'' [])"
    using is_crisis_message_spec[of "''I feel sad today''" "[]"] by blast
  from 1 2 show ?thesis by blast
qed

subsection \<open>C3: the category of a flagged message\<close>

text \<open>
  C3: for a flagged message the category is \<^verbatim>\<open>suicide\<close> exactly when the lowercased
  message contains \<^verbatim>\<open>suicide\<close>, \<^verbatim>\<open>die\<close> or \<^verbatim>\<open>end it\<close>, and it is the other key
  of the table otherwise (the program spells that key \<^verbatim>\<open>self-harm\<close>); the category
  test is a containment test of its own, on its own keyword list. A message that contains
  \<^verbatim>\<open>suicide\<close> in any case is flagged with category \<^verbatim>\<open>suicide\<close>; a message that
  contains \<^verbatim>\<open>cut myself\<close> and none of the three category keywords is flagged with
  category \<^verbatim>\<open>self-harm\<close>.
\<close>

theorem crisis_category:
  "(fst (is_crisis_message m tr) \<longrightarrow>
      (crisis_type m = ''suicide'' \<longleftrightarrow>
         (\<exists>w \<in> set [''suicide'', ''die'', ''end it'']. \<exists>p s. lower m = p @ w @ s))
      \<and> (crisis_type m \<noteq> ''suicide'' \<longrightarrow> crisis_type m = ''self-harm''))
   \<and> ((\<exists>p x s. m = p @ x @ s \<and> lower x = ''suicide'') \<longrightarrow>
        fst (is_crisis_message m tr) \<and> crisis_type m = ''suicide'')
   \<and> ((\<exists>p x s. m = p @ x @ s \<and> lower x = ''cut myself'')
        \<and> (\<forall>w \<in> set [''suicide'', ''die'', ''end it'']. \<not> (\<exists>p s. lower m = p @ w @ s)) \<longrightarrow>
        fst (is_crisis_message m tr) \<and> crisis_type m = ''self-harm'')"
proof (intro conjI impI)
  show "crisis_type m = ''suicide'' \<longleftrightarrow>
         (\<exists>w \<in> set [''suicide'', ''die'', ''end it'']. \<exists>p s. lower m = p @ w @ s)"
    by (rule crisis_type_iff)
next
  assume "crisis_type m \<noteq> ''suicide''"
  then show "crisis_type m = ''self-harm''" by (rule crisis_type_cases)
next
  assume "\<exists>p x s. m = p @ x @ s \<and> lower x = ''suicide''"
  then have s: "\<exists>p s. lower m = p @ ''suicide'' @ s" by (simp only: lower_contains_iff)
  then show "fst (is_crisis_message m tr)" unfolding is_crisis_message_iff by simp
  from s show "crisis_type m = ''suicide''" unfolding crisis_type_iff by simp
next
  assume a: "(\<exists>p x s. m = p @ x @ s \<and> lower x = ''cut myself'')
        \<and> (\<forall>w \<in> set [''suicide'', ''die'', ''end it'']. \<not> (\<exists>p s. lower m = p @ w @ s))"
  then have s: "\<exists>p s. lower m = p @ ''cut myself'' @ s" by (simp only: lower_contains_iff)
  then show "fst (is_crisis_message m tr)" unfolding is_crisis_message_iff by simp
  from a have "crisis_type m \<noteq> ''suicide''" unfolding crisis_type_iff by blast
  then show "crisis_type m = ''self-harm''" by (rule crisis_type_cases)
qed

theorem crisis_category_witness:
  "fst (is_crisis_message ''Thinking of SUICIDE'' []) \<and> crisis_type ''Thinking of SUICIDE'' = ''suicide''
   \<and> (\<exists>w \<in> set [''suicide'', ''die'', ''end it'']. \<exists>p s. lower ''Thinking of SUICIDE'' = p @ w @ s)
   \<and> fst (is_crisis_message ''I Cut Myself again'' []) \<and> crisis_type ''I Cut Myself again'' = ''self-harm''"
proof -
  have "''Thinking of SUICIDE'' = ''Thinking of '' @ ''SUICIDE'' @ '''' \<and> lower ''SUICIDE'' = ''suicide''"
    by code_simp
  then have h1: "\<exists>p x s. ''Thinking of SUICIDE'' = p @ x @ s \<and> lower x = ''suicide''" by blast
  have "''I Cut Myself again'' = ''I '' @ ''Cut Myself'' @ '' again'' \<and> lower ''Cut Myself'' = ''cut myself''"
    by code_simp
  then have h2: "\<exists>p x s. ''I Cut Myself again'' = p @ x @ s \<and> lower x = ''cut myself''" by blast
  have "\<not> list_ex (\<lambda>w. str_in w (lower ''I Cut Myself again'')) [''suicide'', ''die'', ''end it'']"
    by code_simp
  then have h3: "\<forall>w \<in> set [''suicide'', ''die'', ''end it'']. \<not> (\<exists>p s. lower ''I Cut Myself again'' = p @ w @ s)"
    unfolding list_ex_iff str_in_iff by blast
  note t1 = crisis_category[of "''Thinking of SUICIDE''" "[]"]
  from t1 h1
  have a: "fst (is_crisis_message ''Thinking of SUICIDE'' []) \<and> crisis_type ''Thinking of SUICIDE'' = ''suicide''"
    by blast
  from t1 a
  have a': "\<exists>w \<in> set [''suicide'', ''die'', ''end it'']. \<exists>p s. lower ''Thinking of SUICIDE'' = p @ w @ s"
    by blast
  from crisis_category[of "''I Cut Myself again''" "[]"] h2 h3
  have b: "fst (is_crisis_message ''I Cut Myself again'' []) \<and> crisis_type ''I Cut Myself again'' = ''self-harm''"
    by blast
  from a a' b show ?thesis by blast
qed

subsection \<open>C4: an empty or blank message\<close>

text \<open>
  C4: when the \<^verbatim>\<open>message\<close> of the request is a string that is empty or holds white
  space only, the handler answers status 200 with a body whose only field is
  \<^verbatim>\<open>response\<close>, the fixed text; the trace is left as it was, so neither the classifier
  nor the model client was called, and nothing was logged.
\<close>

theorem chat_empty_message:
  assumes "map_of d ''message'' = Some (PStr s)" and "\<forall>c \<in> set s. isspace c"
  shows \<open>chat gen (Json (PDict d)) tr =
    (([(''response'', PStr ''I'm here when you're ready to talk'')], 200), tr)\<close>
  using assms by (simp add: chat_def chat_try_def strip_empty_iff empty_reply_text_def)

theorem chat_empty_message_witness:
  \<open>chat model_down (Json (PDict [(''message'', PStr ''  '')])) [] =
    (([(''response'', PStr ''I'm here when you're ready to talk'')], 200), [])\<close>
  using chat_empty_message[of "[(''message'', PStr ''  '')]" "''  ''" model_down "[]"]
  by (simp add: isspace_def)

subsection \<open>C5: the crisis path\<close>

text \<open>
  C5: when the trimmed message is flagged, the table has an entry for its category, and
  the handler answers status 200 with that entry's text, \<^verbatim>\<open>is_crisis\<close> true, that
  entry's resources and \<^verbatim>\<open>success\<close> true. The events of the request are the call of
  the classifier and the two log records: the model client is not called.
\<close>

theorem chat_crisis_reply:
  assumes "map_of d ''message'' = Some (PStr s)" and "fst (is_crisis_message (strip s) tr)"
  shows "\<exists>entry. map_of CRISIS_RESOURCES (crisis_type (strip s)) = Some entry \<and>
     chat gen (Json (PDict d)) tr =
      (([(''response'', PStr (response entry)),
         (''is_crisis'', PBool True),
         (''resources'', PList (map PStr (resources entry))),
         (''success'', PBool True)], 200),
       tr @ [Classifier_call (strip s), Log_info (''User: '' @ strip s),
             Log_info (''AI: '' @ response entry)])"
proof -
  obtain entry where e: "map_of CRISIS_RESOURCES (crisis_type (strip s)) = Some entry"
    using lookup_crisis[of "strip s"] by auto
  have ne: "strip s \<noteq> []" using assms(2) not_crisis_empty by metis
  show ?thesis
    using assms(1) ne e chat_dispatch_crisis[OF assms(2) e, of gen]
    by (simp add: chat_def chat_try_def)
qed

theorem chat_crisis_reply_witness:
  \<open>chat model_reply (Json (PDict [(''message'', PStr ''  I think about suicide '')])) [] =
    (([(''response'', PStr ''I'm deeply concerned about you. Please call the 988 Suicide & Crisis Lifeline now at 988 (US) or your local emergency number.''),
       (''is_crisis'', PBool True),
       (''resources'', PList [PStr ''988 Suicide & Crisis Lifeline'', PStr ''Crisis Text Line: Text HOME to 741741'']),
       (''success'', PBool True)], 200),
     [Classifier_call ''I think about suicide'',
      Log_info ''User: I think about suicide'',
      Log_info ''AI: I'm deeply concerned about you. Please call the 988 Suicide & Crisis Lifeline now at 988 (US) or your local emergency number.''])\<close>
proof -
  have st: "strip ''  I think about suicide '' = ''I think about suicide''" by code_simp
  have fl: "fst (is_crisis_message ''I think about suicide'' [])" by code_simp
  have ct: "crisis_type ''I think about suicide'' = ''suicide''" by code_simp
  have h1: "map_of [(''message'', PStr ''  I think about suicide '')] ''message''
              = Some (PStr ''  I think about suicide '')" by simp
  from chat_crisis_reply[of "[(''message'', PStr ''  I think about suicide '')]"
         "''  I think about suicide ''" "[]" model_reply, OF h1] st fl ct
  show ?thesis by (simp add: CRISIS_RESOURCES_def)
qed

subsection \<open>C6: a model client that answers a blank text\<close>

text \<open>
  C6 asks for the fallback text whenever the model client fails or answers an empty or
  blank text. The program raises \<^verbatim>\<open>ValueError("Empty response from model")\<close> on an
  empty answer, but it tests the answer before it removes the asterisks and trims. An
  answer that is a single space passes the test and is cleaned to the empty string: for
  the message \<^verbatim>\<open>hello\<close> the handler calls the model, logs no error, and answers
  status 200 with an empty \<^verbatim>\<open>response\<close>, not with the fallback text.
\<close>

theorem chat_blank_generation_reply:
  \<open>chat model_blank (Json (PDict [(''message'', PStr ''hello'')])) [] =
     (([(''response'', PStr ''''), (''is_crisis'', PBool False),
        (''resources'', PList []), (''success'', PBool True)], 200),
      [Classifier_call ''hello'', Classifier_call ''hello'',
       Model_call (THERAPY_CONTEXT @ prompt_of ''hello''),
       Log_info ''User: hello'', Log_info ''AI: ''])
   \<and> fst (chat model_blank (Json (PDict [(''message'', PStr ''hello'')])) []) \<noteq>
     ([(''response'', PStr ''I'm having trouble responding. Could you rephrase that or try again later?''),
       (''is_crisis'', PBool False), (''resources'', PList []), (''success'', PBool True)], 200)\<close>
  by code_simp

subsection \<open>C7: an exception inside the handler\<close>

text \<open>
  C7: when an exception is raised inside the \<^verbatim>\<open>try\<close> block of the handler, the
  handler logs it and answers status 500 with the fixed text and \<^verbatim>\<open>success\<close> false;
  the handler returns a reply on every request, and status 500 is answered in this case
  only.
\<close>

theorem chat_exception_reply:
  \<open>(fst (chat_try gen req tr) = Inl e \<longrightarrow>
     chat gen req tr =
       (([(''response'', PStr ''I'm unable to respond properly right now. Please try again later.''),
          (''success'', PBool False)], 500),
        snd (chat_try gen req tr) @ [Log_error (''Endpoint error: '' @ str_exn e)]))
   \<and> (snd (fst (chat gen req tr)) = 500 \<longleftrightarrow> (\<exists>e. fst (chat_try gen req tr) = Inl e))\<close>
proof (intro conjI impI)
  assume "fst (chat_try gen req tr) = Inl e"
  then show \<open>chat gen req tr =
       (([(''response'', PStr ''I'm unable to respond properly right now. Please try again later.''),
          (''success'', PBool False)], 500),
        snd (chat_try gen req tr) @ [Log_error (''Endpoint error: '' @ str_exn e)])\<close>
    by (cases "chat_try gen req tr") (simp add: chat_def error_reply_text_def)
next
  show "snd (fst (chat gen req tr)) = 500 \<longleftrightarrow> (\<exists>e. fst (chat_try gen req tr) = Inl e)"
  proof (cases "fst (chat_try gen req tr)")
    case (Inl e)
    then show ?thesis by (simp add: chat_cases)
  next
    case (Inr r)
    then have "snd r = 200 \<or> snd r = 400" by (rule chat_try_status)
    with Inr show ?thesis by (auto simp: chat_cases)
  qed
qed

theorem chat_exception_reply_witness:
  \<open>chat model_reply (Json (PList [])) [] =
     (([(''response'', PStr ''I'm unable to respond properly right now. Please try again later.''),
        (''success'', PBool False)], 500),
      [Log_error (''Endpoint error: '' @ str_exn (AttributeError ''list'' ''get''))])\<close>
proof -
  have h: "chat_try model_reply (Json (PList [])) [] = (Inl (AttributeError ''list'' ''get''), [])"
    by (simp add: chat_try_def)
  then have "fst (chat_try model_reply (Json (PList [])) []) = Inl (AttributeError ''list'' ''get'')"
    by simp
  with chat_exception_reply[of model_reply "Json (PList [])" "[]" "AttributeError ''list'' ''get''"] h
  show ?thesis by simp
qed

subsection \<open>C9: the shape of the reply off the crisis path\<close>

text \<open>
  C9: for a message that is not empty after trimming and is not flagged, the handler
  answers status 200 with the four fields, \<^verbatim>\<open>is_crisis\<close> false, \<^verbatim>\<open>resources\<close> the
  empty list and \<^verbatim>\<open>success\<close> true, whatever the model client does (the text is what
  \<^verbatim>\<open>generate_response\<close> returns, the fallback text included). And on any request, a
  reply whose \<^verbatim>\<open>resources\<close> is a non-empty list comes from a flagged message.
\<close>

theorem chat_non_crisis_shape:
  "(map_of d ''message'' = Some (PStr s) \<and> strip s \<noteq> [] \<and> \<not> fst (is_crisis_message (strip s) tr) \<longrightarrow>
      fst (chat gen (Json (PDict d)) tr) =
        ([(''response'', PStr (fst (generate_response gen (strip s) (tr @ [Classifier_call (strip s)])))),
          (''is_crisis'', PBool False), (''resources'', PList []), (''success'', PBool True)], 200))
   \<and> (map_of (fst (fst (chat gen req tr))) ''resources'' = Some (PList (x # xs)) \<longrightarrow>
        (\<exists>d s. req = Json (PDict d) \<and> map_of d ''message'' = Some (PStr s)
               \<and> fst (is_crisis_message (strip s) tr)))"
proof (intro conjI impI)
  assume a: "map_of d ''message'' = Some (PStr s) \<and> strip s \<noteq> [] \<and> \<not> fst (is_crisis_message (strip s) tr)"
  then have "chat_try gen (Json (PDict d)) tr = chat_dispatch gen (strip s) tr"
    by (simp add: chat_try_def)
  with a show "fst (chat gen (Json (PDict d)) tr) =
        ([(''response'', PStr (fst (generate_response gen (strip s) (tr @ [Classifier_call (strip s)])))),
          (''is_crisis'', PBool False), (''resources'', PList []), (''success'', PBool True)], 200)"
    by (simp add: chat_cases chat_dispatch_not_crisis)
next
  assume h: "map_of (fst (fst (chat gen req tr))) ''resources'' = Some (PList (x # xs))"
  show "\<exists>d s. req = Json (PDict d) \<and> map_of d ''message'' = Some (PStr s)
               \<and> fst (is_crisis_message (strip s) tr)"
  proof (cases req)
    case NonJson
    with h show ?thesis by (simp add: chat_cases chat_try_def)
  next
    case (BadJson msg)
    with h show ?thesis by (simp add: chat_cases chat_try_def)
  next
    case (Json data)
    show ?thesis
    proof (cases "\<exists>d s. data = PDict d \<and> map_of d ''message'' = Some (PStr s) \<and> strip s \<noteq> []")
      case True
      then obtain d s where d: "data = PDict d" "map_of d ''message'' = Some (PStr s)" "strip s \<noteq> []"
        by blast
      then have t: "chat_try gen req tr = chat_dispatch gen (strip s) tr"
        using Json by (simp add: chat_try_def)
      have "fst (is_crisis_message (strip s) tr)"
      proof (rule ccontr)
        assume "\<not> fst (is_crisis_message (strip s) tr)"
        then show False using h t by (simp add: chat_cases chat_dispatch_not_crisis)
      qed
      with d Json show ?thesis by blast
    next
      case False
      have "map_of (fst (fst (chat gen (Json data) tr))) ''resources'' = None"
      proof (cases data)
        case (PDict d)
        show ?thesis
        proof (cases "map_of d ''message''")
          case None
          with PDict show ?thesis by (simp add: chat_cases chat_try_def strip_def)
        next
          case (Some v)
          show ?thesis
          proof (cases v)
            case (PStr s)
            with False PDict Some have "strip s = []" by simp
            with PDict Some PStr show ?thesis by (simp add: chat_cases chat_try_def)
          qed (use PDict Some in \<open>simp_all add: chat_cases chat_try_def\<close>)
        qed
      qed (simp_all add: chat_cases chat_try_def)
      with h Json show ?thesis by simp
    qed
  qed
qed

theorem chat_non_crisis_shape_witness:
  \<open>fst (chat model_reply (Json (PDict [(''message'', PStr ''hello'')])) []) =
     ([(''response'', PStr ''I hear you. What would help right now?''),
       (''is_crisis'', PBool False), (''resources'', PList []), (''success'', PBool True)], 200)
   \<and> (\<exists>d s. Json (PDict [(''message'', PStr ''I think about suicide'')]) = Json (PDict d)
          \<and> map_of d ''message'' = Some (PStr s) \<and> fst (is_crisis_message (strip s) []))\<close>
proof -
  have h1: "map_of [(''message'', PStr ''hello'')] ''message'' = Some (PStr ''hello'')" by simp
  have h2: "strip ''hello'' \<noteq> []" by code_simp
  have h3: "\<not> fst (is_crisis_message (strip ''hello'') [])" by code_simp
  have g: "fst (generate_response model_reply (strip ''hello'') ([] @ [Classifier_call (strip ''hello'')]))
             = ''I hear you. What would help right now?''"
    by code_simp
  from chat_non_crisis_shape[where d = "[(''message'', PStr ''hello'')]" and s = "''hello''"
         and tr = "[]" and gen = model_reply] h1 h2 h3
  have "fst (chat model_reply (Json (PDict [(''message'', PStr ''hello'')])) []) =
        ([(''response'', PStr (fst (generate_response model_reply (strip ''hello'')
                                      ([] @ [Classifier_call (strip ''hello'')])))),
          (''is_crisis'', PBool False), (''resources'', PList []), (''success'', PBool True)], 200)"
    by blast
  then have a: \<open>fst (chat model_reply (Json (PDict [(''message'', PStr ''hello'')])) []) =
     ([(''response'', PStr ''I hear you. What would help right now?''),
       (''is_crisis'', PBool False), (''resources'', PList []), (''success'', PBool True)], 200)\<close>
    by (simp only: g)
  have r: "map_of (fst (fst (chat model_reply (Json (PDict [(''message'', PStr ''I think about suicide'')])) [])))
             ''resources''
           = Some (PList (PStr ''988 Suicide & Crisis Lifeline'' # [PStr ''Crisis Text Line: Text HOME to 741741'']))"
    by code_simp
  from chat_non_crisis_shape[where req = "Json (PDict [(''message'', PStr ''I think about suicide'')])"
         and tr = "[]" and gen = model_reply
         and x = "PStr ''988 Suicide & Crisis Lifeline''"
         and xs = "[PStr ''Crisis Text Line: Text HOME to 741741'']"] r
  have b: "\<exists>d s. Json (PDict [(''message'', PStr ''I think about suicide'')]) = Json (PDict d)
          \<and> map_of d ''message'' = Some (PStr s) \<and> fst (is_crisis_message (strip s) [])"
    by blast
  from a b show ?thesis by blast
qed

subsection \<open>C10: a message that is not a string\<close>

text \<open>
  C10: when the \<^verbatim>\<open>message\<close> of the request is present and is not a string, the call
  of \<^verbatim>\<open>strip\<close> raises an attribute error, which the handler catches: the answer is
  status 500 with the fixed text and \<^verbatim>\<open>success\<close> false, not status 400.
\<close>

theorem chat_non_string_message:
  assumes "map_of d ''message'' = Some v" and "\<forall>s. v \<noteq> PStr s"
  shows \<open>chat gen (Json (PDict d)) tr =
     (([(''response'', PStr ''I'm unable to respond properly right now. Please try again later.''),
        (''success'', PBool False)], 500),
      tr @ [Log_error (''Endpoint error: '' @ str_exn (AttributeError (type_name v) ''strip''))])\<close>
  using assms by (cases v) (simp_all add: chat_def chat_try_def error_reply_text_def)

theorem chat_non_string_message_witness:
  \<open>chat model_reply (Json (PDict [(''message'', PInt 5)])) [] =
     (([(''response'', PStr ''I'm unable to respond properly right now. Please try again later.''),
        (''success'', PBool False)], 500),
      [Log_error (''Endpoint error: '' @ str_exn (AttributeError ''int'' ''strip''))])\<close>
  using chat_non_string_message[of "[(''message'', PInt 5)]" "PInt 5" model_reply "[]"]
  by simp

end
